theory Spec2Isabelle
  imports Main
begin

section \<open>JavaScript values\<close>

text \<open>
  The service receives arbitrary JavaScript values and tests them with \<^verbatim>\<open>typeof\<close>.
  Only primitive values are modelled. A string is a list of code units of a type \<open>'c\<close>, so
  that \<^const>\<open>length\<close> is the \<^verbatim>\<open>.length\<close> of the source.
\<close>

datatype 'c jsval =
    JString "'c list"
  | JNumber int
  | JBoolean bool
  | JNull
  | JUndefined

datatype js_error = TypeError

text \<open>The \<^verbatim>\<open>typeof\<close> operator on these values.\<close>

fun typeof :: "'c jsval \<Rightarrow> string" where
  "typeof (JString s) = ''string''"
| "typeof (JNumber n) = ''number''"
| "typeof (JBoolean b) = ''boolean''"
| "typeof JNull = ''object''"
| "typeof JUndefined = ''undefined''"

text \<open>Template literals print a number in decimal.\<close>

fun digit :: "nat \<Rightarrow> char" where
  "digit n = char_of (48 + n)"

function decimal :: "nat \<Rightarrow> string" where
  "decimal n = (if n < 10 then [digit n] else decimal (n div 10) @ [digit (n mod 10)])"
  by pat_completeness auto
termination
  by (relation "measure (\<lambda>n. n)") auto

declare decimal.simps [simp del]

section \<open>The credential service\<close>

text \<open>
  \<^verbatim>\<open>String.prototype.trim\<close> and \<^verbatim>\<open>String.prototype.toLowerCase\<close> belong to the JavaScript
  runtime, not to the repository. The functions of the service are written here with the
  two of them as the parameters \<open>trim\<close> and \<open>toLowerCase\<close>, over any type of code units; the
  response messages are literals of the source.
\<close>

definition MIN_USERNAME_LENGTH :: nat where
  "MIN_USERNAME_LENGTH = 3"

definition MIN_PASSWORD_LENGTH :: nat where
  "MIN_PASSWORD_LENGTH = 6"

text \<open>
  \<^verbatim>\<open>username.trim().toLowerCase()\<close>: calling \<^verbatim>\<open>trim\<close> on a primitive that is not a string
  throws a TypeError.
\<close>

fun normalizeUsername_with ::
  "('c list \<Rightarrow> 'c list) \<Rightarrow> ('c list \<Rightarrow> 'c list) \<Rightarrow> 'c jsval \<Rightarrow> js_error + 'c list" where
  "normalizeUsername_with trim toLowerCase (JString uname) = Inr (toLowerCase (trim uname))"
| "normalizeUsername_with trim toLowerCase v = Inl TypeError"

record validation_result =
  valid :: bool
  error :: string

text \<open>
  The first equation is the code after the \<^verbatim>\<open>typeof\<close> guard, where both arguments are
  strings; the second is the guard's early return.
\<close>

fun validateCredentials_with ::
  "('c list \<Rightarrow> 'c list) \<Rightarrow> 'c jsval \<Rightarrow> 'c jsval \<Rightarrow> validation_result" where
  "validateCredentials_with trim (JString uname) (JString pword) =
     (let strippedUsername = trim uname
      in if strippedUsername = [] then
           \<lparr>valid = False, error = ''Username cannot be empty.''\<rparr>
         else if length strippedUsername < MIN_USERNAME_LENGTH then
           \<lparr>valid = False,
            error = ''Username must be at least '' @ decimal MIN_USERNAME_LENGTH @ '' characters.''\<rparr>
         else if length pword < MIN_PASSWORD_LENGTH then
           \<lparr>valid = False,
            error = ''Password must be at least '' @ decimal MIN_PASSWORD_LENGTH @ '' characters.''\<rparr>
         else \<lparr>valid = True, error = ''''\<rparr>)"
| "validateCredentials_with trim uname pword =
     \<lparr>valid = False, error = ''Username and password must be strings.''\<rparr>"

text \<open>
  A stored account: the object \<^verbatim>\<open>{ username: normalizedUsername, password }\<close>. The
  parameters \<^verbatim>\<open>username\<close> and \<^verbatim>\<open>password\<close> of the source's functions are written
  \<open>uname\<close> and \<open>pword\<close>, the names themselves being the fields of the account.
\<close>

record 'c user =
  username :: "'c list"
  password :: "'c jsval"

text \<open>The service object: \<^verbatim>\<open>this.users\<close>, a \<^verbatim>\<open>Map\<close> from strings to accounts.\<close>

record 'c auth_service =
  users :: "'c list \<rightharpoonup> 'c user"

datatype body = ErrorBody string | MessageBody string

record response =
  status :: nat
  body :: body

text \<open>The constructor: \<^verbatim>\<open>this.users = new Map()\<close>.\<close>

definition AuthService :: "'c auth_service" where
  "AuthService = \<lparr>users = Map.empty\<rparr>"

text \<open>
  Both methods return the response together with the service object after the call; a
  thrown exception is \<^const>\<open>Inl\<close>.
\<close>

definition register_with ::
  "('c list \<Rightarrow> 'c list) \<Rightarrow> ('c list \<Rightarrow> 'c list) \<Rightarrow> 'c jsval \<Rightarrow> 'c jsval \<Rightarrow> 'c auth_service
     \<Rightarrow> js_error + (response \<times> 'c auth_service)" where
  "register_with trim toLowerCase uname pword this =
     (let r = validateCredentials_with trim uname pword
      in if \<not> valid r then Inr (\<lparr>status = 400, body = ErrorBody (error r)\<rparr>, this)
         else case normalizeUsername_with trim toLowerCase uname of
           Inl e \<Rightarrow> Inl e
         | Inr normalizedUsername \<Rightarrow>
             if users this normalizedUsername \<noteq> None then
               Inr (\<lparr>status = 409, body = ErrorBody ''Username already exists.''\<rparr>, this)
             else
               Inr (\<lparr>status = 201, body = MessageBody ''Registration successful.''\<rparr>,
                    this\<lparr>users := (users this)(normalizedUsername \<mapsto>
                      \<lparr>username = normalizedUsername, password = pword\<rparr>)\<rparr>))"

definition login_with ::
  "('c list \<Rightarrow> 'c list) \<Rightarrow> ('c list \<Rightarrow> 'c list) \<Rightarrow> 'c jsval \<Rightarrow> 'c jsval \<Rightarrow> 'c auth_service
     \<Rightarrow> js_error + (response \<times> 'c auth_service)" where
  "login_with trim toLowerCase uname pword this =
     (let r = validateCredentials_with trim uname pword
      in if \<not> valid r then Inr (\<lparr>status = 400, body = ErrorBody (error r)\<rparr>, this)
         else case normalizeUsername_with trim toLowerCase uname of
           Inl e \<Rightarrow> Inl e
         | Inr normalizedUsername \<Rightarrow>
             (case users this normalizedUsername of
                None \<Rightarrow>
                  Inr (\<lparr>status = 401, body = ErrorBody ''Invalid username or password.''\<rparr>, this)
              | Some user \<Rightarrow>
                  if password user \<noteq> pword then
                    Inr (\<lparr>status = 401, body = ErrorBody ''Invalid username or password.''\<rparr>, this)
                  else Inr (\<lparr>status = 200, body = MessageBody ''Login successful.''\<rparr>, this)))"

text \<open>
  The form handlers of the page call \<^verbatim>\<open>register\<close> and \<^verbatim>\<open>login\<close> on one service object,
  one call after the other. An exception leaves the object as it was.
\<close>

datatype 'c call = Register "'c jsval" "'c jsval" | Login "'c jsval" "'c jsval"

fun invoke_with ::
  "('c list \<Rightarrow> 'c list) \<Rightarrow> ('c list \<Rightarrow> 'c list) \<Rightarrow> 'c call \<Rightarrow> 'c auth_service
     \<Rightarrow> js_error + (response \<times> 'c auth_service)" where
  "invoke_with trim toLowerCase (Register uname pword) this =
     register_with trim toLowerCase uname pword this"
| "invoke_with trim toLowerCase (Login uname pword) this =
     login_with trim toLowerCase uname pword this"

fun run_with ::
  "('c list \<Rightarrow> 'c list) \<Rightarrow> ('c list \<Rightarrow> 'c list) \<Rightarrow> 'c auth_service \<Rightarrow> 'c call list
     \<Rightarrow> 'c auth_service" where
  "run_with trim toLowerCase this [] = this"
| "run_with trim toLowerCase this (c # cs) =
     run_with trim toLowerCase
       (case invoke_with trim toLowerCase c this of Inl e \<Rightarrow> this | Inr (r, this') \<Rightarrow> this') cs"

section \<open>The string functions on Latin-1 strings\<close>

text \<open>
  The runtime's two functions on the strings whose code units are below 256, one
  \<^typ>\<open>char\<close> per code unit. The code units in that range that \<^verbatim>\<open>String.prototype.trim\<close>
  removes are TAB, LF, VT, FF, CR, SPACE and NO-BREAK SPACE.
\<close>

definition isWhiteSpace :: "char \<Rightarrow> bool" where
  "isWhiteSpace c = ((of_char c :: nat) \<in> {9, 10, 11, 12, 13, 32, 160})"

definition trimStart :: "string \<Rightarrow> string" where
  "trimStart s = dropWhile isWhiteSpace s"

definition trimEnd :: "string \<Rightarrow> string" where
  "trimEnd s = rev (dropWhile isWhiteSpace (rev s))"

definition trim :: "string \<Rightarrow> string" where
  "trim s = trimEnd (trimStart s)"

text \<open>
  \<^verbatim>\<open>String.prototype.toLowerCase\<close> on code units below 256: the letters A to Z and the
  Latin-1 capitals U+00C0 to U+00DE (U+00D7, the multiplication sign, apart) move up by 32;
  every other code unit is kept.
\<close>

definition lowerChar :: "char \<Rightarrow> char" where
  "lowerChar c =
     (let n = (of_char c :: nat)
      in if (65 \<le> n \<and> n \<le> 90) \<or> (192 \<le> n \<and> n \<le> 222 \<and> n \<noteq> 215)
         then char_of (n + 32) else c)"

definition toLowerCase :: "string \<Rightarrow> string" where
  "toLowerCase s = map lowerChar s"

text \<open>The service with these two functions for the runtime's.\<close>

definition normalizeUsername :: "char jsval \<Rightarrow> js_error + string" where
  "normalizeUsername = normalizeUsername_with trim toLowerCase"

definition validateCredentials :: "char jsval \<Rightarrow> char jsval \<Rightarrow> validation_result" where
  "validateCredentials = validateCredentials_with trim"

definition register ::
  "char jsval \<Rightarrow> char jsval \<Rightarrow> char auth_service \<Rightarrow> js_error + (response \<times> char auth_service)" where
  "register = register_with trim toLowerCase"

definition login ::
  "char jsval \<Rightarrow> char jsval \<Rightarrow> char auth_service \<Rightarrow> js_error + (response \<times> char auth_service)" where
  "login = login_with trim toLowerCase"

definition invoke ::
  "char call \<Rightarrow> char auth_service \<Rightarrow> js_error + (response \<times> char auth_service)" where
  "invoke = invoke_with trim toLowerCase"

definition run :: "char auth_service \<Rightarrow> char call list \<Rightarrow> char auth_service" where
  "run = run_with trim toLowerCase"

section \<open>Facts about strings, validation and the two methods\<close>

subsection \<open>The service on Latin-1 strings, equation by equation\<close>

lemma normalizeUsername_eqs [simp]:
  "normalizeUsername (JString uname) = Inr (toLowerCase (trim uname))"
  "normalizeUsername (JNumber n) = Inl TypeError"
  "normalizeUsername (JBoolean b) = Inl TypeError"
  "normalizeUsername JNull = Inl TypeError"
  "normalizeUsername JUndefined = Inl TypeError"
  by (simp_all add: normalizeUsername_def)

lemma validateCredentials_strings [simp]:
  "validateCredentials (JString uname) (JString pword) =
     (let strippedUsername = trim uname
      in if strippedUsername = [] then
           \<lparr>valid = False, error = ''Username cannot be empty.''\<rparr>
         else if length strippedUsername < MIN_USERNAME_LENGTH then
           \<lparr>valid = False,
            error = ''Username must be at least '' @ decimal MIN_USERNAME_LENGTH @ '' characters.''\<rparr>
         else if length pword < MIN_PASSWORD_LENGTH then
           \<lparr>valid = False,
            error = ''Password must be at least '' @ decimal MIN_PASSWORD_LENGTH @ '' characters.''\<rparr>
         else \<lparr>valid = True, error = ''''\<rparr>)"
  by (simp add: validateCredentials_def)

lemma register_unfold:
  "register uname pword this =
     (let r = validateCredentials uname pword
      in if \<not> valid r then Inr (\<lparr>status = 400, body = ErrorBody (error r)\<rparr>, this)
         else case normalizeUsername uname of
           Inl e \<Rightarrow> Inl e
         | Inr normalizedUsername \<Rightarrow>
             if users this normalizedUsername \<noteq> None then
               Inr (\<lparr>status = 409, body = ErrorBody ''Username already exists.''\<rparr>, this)
             else
               Inr (\<lparr>status = 201, body = MessageBody ''Registration successful.''\<rparr>,
                    this\<lparr>users := (users this)(normalizedUsername \<mapsto>
                      \<lparr>username = normalizedUsername, password = pword\<rparr>)\<rparr>))"
  by (simp only: register_def register_with_def validateCredentials_def normalizeUsername_def)

lemma login_unfold:
  "login uname pword this =
     (let r = validateCredentials uname pword
      in if \<not> valid r then Inr (\<lparr>status = 400, body = ErrorBody (error r)\<rparr>, this)
         else case normalizeUsername uname of
           Inl e \<Rightarrow> Inl e
         | Inr normalizedUsername \<Rightarrow>
             (case users this normalizedUsername of
                None \<Rightarrow>
                  Inr (\<lparr>status = 401, body = ErrorBody ''Invalid username or password.''\<rparr>, this)
              | Some user \<Rightarrow>
                  if password user \<noteq> pword then
                    Inr (\<lparr>status = 401, body = ErrorBody ''Invalid username or password.''\<rparr>, this)
                  else Inr (\<lparr>status = 200, body = MessageBody ''Login successful.''\<rparr>, this)))"
  by (simp only: login_def login_with_def validateCredentials_def normalizeUsername_def)

lemma invoke_eqs [simp]:
  "invoke (Register uname pword) this = register uname pword this"
  "invoke (Login uname pword) this = login uname pword this"
  by (simp_all add: invoke_def register_def login_def)

lemma run_eqs [simp]:
  "run this [] = this"
  "run this (c # cs) =
     run (case invoke c this of Inl e \<Rightarrow> this | Inr (r, this') \<Rightarrow> this') cs"
  by (simp_all add: run_def invoke_def)

subsection \<open>Strings\<close>













lemma decimal_3: "decimal 3 = ''3''" by code_simp
lemma decimal_6: "decimal 6 = ''6''" by code_simp

subsection \<open>Validation\<close>

lemma validateCredentials_not_string:
  "typeof u \<noteq> ''string'' \<or> typeof p \<noteq> ''string'' \<Longrightarrow>
   validateCredentials u p = \<lparr>valid = False, error = ''Username and password must be strings.''\<rparr>"
  by (cases u; cases p) (simp_all add: validateCredentials_def)

lemma valid_iff:
  "valid (validateCredentials u p) \<longleftrightarrow>
   (\<exists>us ps. u = JString us \<and> p = JString ps \<and> 3 \<le> length (trim us) \<and> 6 \<le> length ps)"
  by (cases u; cases p)
    (auto simp: validateCredentials_def Let_def MIN_USERNAME_LENGTH_def MIN_PASSWORD_LENGTH_def)

lemma valid_normalize:
  "valid (validateCredentials u p) \<Longrightarrow> \<exists>us. u = JString us \<and> normalizeUsername u = Inr (toLowerCase (trim us))"
  by (auto simp: valid_iff)

subsection \<open>The two methods, case by case\<close>

lemma register_invalid:
  "\<not> valid (validateCredentials u p) \<Longrightarrow>
   register u p s = Inr (\<lparr>status = 400, body = ErrorBody (error (validateCredentials u p))\<rparr>, s)"
  by (simp add: register_unfold)

lemma login_invalid:
  "\<not> valid (validateCredentials u p) \<Longrightarrow>
   login u p s = Inr (\<lparr>status = 400, body = ErrorBody (error (validateCredentials u p))\<rparr>, s)"
  by (simp add: login_unfold)

lemma register_taken:
  "valid (validateCredentials u p) \<Longrightarrow> normalizeUsername u = Inr n \<Longrightarrow> users s n = Some a \<Longrightarrow>
   register u p s = Inr (\<lparr>status = 409, body = ErrorBody ''Username already exists.''\<rparr>, s)"
  by (simp add: register_unfold)

lemma register_fresh:
  "valid (validateCredentials u p) \<Longrightarrow> normalizeUsername u = Inr n \<Longrightarrow> users s n = None \<Longrightarrow>
   register u p s = Inr (\<lparr>status = 201, body = MessageBody ''Registration successful.''\<rparr>,
     s\<lparr>users := (users s)(n \<mapsto> \<lparr>username = n, password = p\<rparr>)\<rparr>)"
  by (simp add: register_unfold)

lemma login_absent:
  "valid (validateCredentials u p) \<Longrightarrow> normalizeUsername u = Inr n \<Longrightarrow> users s n = None \<Longrightarrow>
   login u p s = Inr (\<lparr>status = 401, body = ErrorBody ''Invalid username or password.''\<rparr>, s)"
  by (simp add: login_unfold)

lemma login_present:
  "valid (validateCredentials u p) \<Longrightarrow> normalizeUsername u = Inr n \<Longrightarrow> users s n = Some a \<Longrightarrow>
   login u p s =
     (if password a \<noteq> p
      then Inr (\<lparr>status = 401, body = ErrorBody ''Invalid username or password.''\<rparr>, s)
      else Inr (\<lparr>status = 200, body = MessageBody ''Login successful.''\<rparr>, s))"
  by (simp add: login_unfold)

lemma register_201:
  assumes "register u p s = Inr (r, s')" "status r = 201"
  shows "\<exists>n. valid (validateCredentials u p) \<and> normalizeUsername u = Inr n \<and> users s n = None \<and>
     r = \<lparr>status = 201, body = MessageBody ''Registration successful.''\<rparr> \<and>
     s' = s\<lparr>users := (users s)(n \<mapsto> \<lparr>username = n, password = p\<rparr>)\<rparr>"
  using assms
  by (auto simp: register_unfold Let_def split: if_splits sum.splits)


subsection \<open>The store across calls\<close>

lemma login_state: "login u p s = Inr (r, s') \<Longrightarrow> s' = s"
  by (auto simp: login_unfold Let_def split: if_splits sum.splits option.splits)

lemma register_total:
  "\<exists>r s'. register u p s = Inr (r, s') \<and> status r \<in> {201, 400, 409}"
proof (cases "valid (validateCredentials u p)")
  case False
  then show ?thesis by (simp add: register_invalid)
next
  case True
  then obtain n where n: "normalizeUsername u = Inr n"
    using valid_normalize by blast
  show ?thesis
  proof (cases "users s n")
    case None
    with True n show ?thesis by (simp add: register_fresh)
  next
    case (Some a)
    with True n show ?thesis by (simp add: register_taken)
  qed
qed

lemma register_state:
  assumes "register u p s = Inr (r, s')"
  shows "s' = s \<or> (\<exists>us. u = JString us \<and> users s (toLowerCase (trim us)) = None \<and>
     s' = s\<lparr>users := (users s)(toLowerCase (trim us) \<mapsto>
            \<lparr>username = toLowerCase (trim us), password = p\<rparr>)\<rparr>)"
proof (cases "valid (validateCredentials u p)")
  case False
  with assms show ?thesis by (simp add: register_invalid)
next
  case True
  then obtain us where us: "u = JString us" "normalizeUsername u = Inr (toLowerCase (trim us))"
    using valid_normalize by blast
  show ?thesis
  proof (cases "users s (toLowerCase (trim us))")
    case None
    with True us assms show ?thesis by (simp add: register_fresh)
  next
    case (Some a)
    with True us assms show ?thesis by (simp add: register_taken)
  qed
qed

lemma invoke_keeps:
  assumes "invoke c s = Inr (r, s')" and "users s k = Some a"
  shows "users s' k = Some a"
proof (cases c)
  case (Register u p)
  with assms(1) have "register u p s = Inr (r, s')" by simp
  from register_state [OF this] show ?thesis
  proof
    assume "s' = s"
    with assms(2) show ?thesis by simp
  next
    assume "\<exists>us. u = JString us \<and> users s (toLowerCase (trim us)) = None \<and>
      s' = s\<lparr>users := (users s)(toLowerCase (trim us) \<mapsto>
             \<lparr>username = toLowerCase (trim us), password = p\<rparr>)\<rparr>"
    then obtain n where "users s n = None"
      and s': "users s' = (users s)(n \<mapsto> \<lparr>username = n, password = p\<rparr>)"
      by auto
    with assms(2) have "k \<noteq> n" by auto
    with s' assms(2) show ?thesis by simp
  qed
next
  case (Login u p)
  with assms(1) have "login u p s = Inr (r, s')" by simp
  from login_state [OF this] assms(2) show ?thesis by simp
qed

lemma run_keeps: "users s k = Some a \<Longrightarrow> users (run s cs) k = Some a"
proof (induction cs arbitrary: s)
  case Nil
  then show ?case by simp
next
  case (Cons c cs)
  have "users (case invoke c s of Inl e \<Rightarrow> s | Inr (r, s') \<Rightarrow> s') k = Some a"
  proof (cases "invoke c s")
    case (Inl e)
    with Cons.prems show ?thesis by simp
  next
    case (Inr x)
    obtain r s' where "x = (r, s')" by (cases x)
    with Inr invoke_keeps [of c s r s' k a] Cons.prems show ?thesis by simp
  qed
  then show ?case
    using Cons.IH by simp
qed

subsection \<open>The store across calls, for any string functions\<close>







subsection \<open>Concrete calls\<close>

lemma alice_valid: "valid (validateCredentials (JString ''  Alice  '') (JString ''secret123''))"
  by code_simp

lemma alice_normalize: "normalizeUsername (JString ''  Alice  '') = Inr ''alice''"
  by code_simp

lemma register_alice:
  "register (JString ''  Alice  '') (JString ''secret123'') AuthService =
     Inr (\<lparr>status = 201, body = MessageBody ''Registration successful.''\<rparr>,
          \<lparr>users = [''alice'' \<mapsto> \<lparr>username = ''alice'', password = JString ''secret123''\<rparr>]\<rparr>)"
  using register_fresh [OF alice_valid alice_normalize, of AuthService]
  by (simp add: AuthService_def)

lemma alice_store_lookup:
  "users \<lparr>users = [''alice'' \<mapsto> \<lparr>username = ''alice'', password = JString ''secret123''\<rparr>]\<rparr> ''alice''
     = Some \<lparr>username = ''alice'', password = JString ''secret123''\<rparr>"
  by simp

section \<open>The claims\<close>

text \<open>
  C5. \<open>validateCredentials\<close> applies its rules in order and the first failure wins: an
  argument that is not a string gives "Username and password must be strings."; else an
  empty trimmed username gives "Username cannot be empty."; else a trimmed username shorter
  than 3 gives "Username must be at least 3 characters."; else a password shorter than 6
  (untrimmed) gives "Password must be at least 6 characters."; else the result is valid
  with the empty error. Trimmed length 3 with password length 6 passes, trimmed length 2
  fails, password length 5 fails, and on any failure \<open>register\<close> and \<open>login\<close> both return
  status 400 with the validation error, the store as it was.
\<close>

theorem validateCredentials_rules:
  "(typeof u \<noteq> ''string'' \<or> typeof p \<noteq> ''string'' \<longrightarrow>
      validateCredentials u p =
        \<lparr>valid = False, error = ''Username and password must be strings.''\<rparr>)
   \<and> (trim us = [] \<longrightarrow>
      validateCredentials (JString us) (JString ps) =
        \<lparr>valid = False, error = ''Username cannot be empty.''\<rparr>)
   \<and> (trim us \<noteq> [] \<and> length (trim us) < 3 \<longrightarrow>
      validateCredentials (JString us) (JString ps) =
        \<lparr>valid = False, error = ''Username must be at least 3 characters.''\<rparr>)
   \<and> (3 \<le> length (trim us) \<and> length ps < 6 \<longrightarrow>
      validateCredentials (JString us) (JString ps) =
        \<lparr>valid = False, error = ''Password must be at least 6 characters.''\<rparr>)
   \<and> (3 \<le> length (trim us) \<and> 6 \<le> length ps \<longrightarrow>
      validateCredentials (JString us) (JString ps) = \<lparr>valid = True, error = ''''\<rparr>)
   \<and> (length (trim us) = 3 \<and> length ps = 6 \<longrightarrow>
      valid (validateCredentials (JString us) (JString ps)))
   \<and> (length (trim us) = 2 \<or> length ps = 5 \<longrightarrow>
      \<not> valid (validateCredentials (JString us) (JString ps)))
   \<and> (\<not> valid (validateCredentials u p) \<longrightarrow>
      register u p s =
        Inr (\<lparr>status = 400, body = ErrorBody (error (validateCredentials u p))\<rparr>, s) \<and>
      login u p s =
        Inr (\<lparr>status = 400, body = ErrorBody (error (validateCredentials u p))\<rparr>, s))"
proof (intro conjI impI)
  assume "typeof u \<noteq> ''string'' \<or> typeof p \<noteq> ''string''"
  then show "validateCredentials u p =
      \<lparr>valid = False, error = ''Username and password must be strings.''\<rparr>"
    by (rule validateCredentials_not_string)
next
  assume "trim us = []"
  then show "validateCredentials (JString us) (JString ps) =
      \<lparr>valid = False, error = ''Username cannot be empty.''\<rparr>"
    by simp
next
  assume "trim us \<noteq> [] \<and> length (trim us) < 3"
  then show "validateCredentials (JString us) (JString ps) =
      \<lparr>valid = False, error = ''Username must be at least 3 characters.''\<rparr>"
    by (simp add: MIN_USERNAME_LENGTH_def decimal_3)
next
  assume a: "3 \<le> length (trim us) \<and> length ps < 6"
  then have "trim us \<noteq> []" by auto
  with a show "validateCredentials (JString us) (JString ps) =
      \<lparr>valid = False, error = ''Password must be at least 6 characters.''\<rparr>"
    by (simp add: MIN_USERNAME_LENGTH_def MIN_PASSWORD_LENGTH_def decimal_6)
next
  assume a: "3 \<le> length (trim us) \<and> 6 \<le> length ps"
  then have "trim us \<noteq> []" by auto
  with a show "validateCredentials (JString us) (JString ps) = \<lparr>valid = True, error = ''''\<rparr>"
    by (simp add: MIN_USERNAME_LENGTH_def MIN_PASSWORD_LENGTH_def)
next
  assume "length (trim us) = 3 \<and> length ps = 6"
  then show "valid (validateCredentials (JString us) (JString ps))"
    by (simp add: valid_iff del: validateCredentials_strings)
next
  assume "length (trim us) = 2 \<or> length ps = 5"
  then show "\<not> valid (validateCredentials (JString us) (JString ps))"
    by (auto simp: valid_iff simp del: validateCredentials_strings)
next
  assume "\<not> valid (validateCredentials u p)"
  then show "register u p s =
      Inr (\<lparr>status = 400, body = ErrorBody (error (validateCredentials u p))\<rparr>, s)"
    by (rule register_invalid)
next
  assume "\<not> valid (validateCredentials u p)"
  then show "login u p s =
      Inr (\<lparr>status = 400, body = ErrorBody (error (validateCredentials u p))\<rparr>, s)"
    by (rule login_invalid)
qed

theorem validateCredentials_rules_witness:
  "validateCredentials (JNumber 42) (JString ''secret123'') =
     \<lparr>valid = False, error = ''Username and password must be strings.''\<rparr>
   \<and> trim ''   '' = []
   \<and> validateCredentials (JString ''   '') (JString ''secret123'') =
     \<lparr>valid = False, error = ''Username cannot be empty.''\<rparr>
   \<and> length (trim '' ab '') = 2
   \<and> validateCredentials (JString '' ab '') (JString ''secret123'') =
     \<lparr>valid = False, error = ''Username must be at least 3 characters.''\<rparr>
   \<and> length (trim '' abc '') = 3 \<and> length ''12345'' = 5
   \<and> validateCredentials (JString '' abc '') (JString ''12345'') =
     \<lparr>valid = False, error = ''Password must be at least 6 characters.''\<rparr>
   \<and> length ''123456'' = 6
   \<and> validateCredentials (JString '' abc '') (JString ''123456'') = \<lparr>valid = True, error = ''''\<rparr>
   \<and> register (JString '' ab '') (JString ''secret123'') AuthService =
     Inr (\<lparr>status = 400, body = ErrorBody ''Username must be at least 3 characters.''\<rparr>,
          AuthService)
   \<and> login (JString '' ab '') (JString ''secret123'') AuthService =
     Inr (\<lparr>status = 400, body = ErrorBody ''Username must be at least 3 characters.''\<rparr>,
          AuthService)"
proof -
  have e: "trim ''   '' = []" by code_simp
  have ab: "trim '' ab '' = ''ab''" by code_simp
  have abc: "trim '' abc '' = ''abc''" by code_simp
  have ty: "typeof (JNumber 42) \<noteq> ''string''" by simp
  note r1 = validateCredentials_rules [of "JNumber 42" "JString ''secret123''" "''   ''" "''secret123''" AuthService]
  note r2 = validateCredentials_rules [of "JString '' ab ''" "JString ''secret123''" "'' ab ''" "''secret123''" AuthService]
  note r3 = validateCredentials_rules [of "JString '' ab ''" "JString ''secret123''" "'' abc ''" "''12345''" AuthService]
  note r4 = validateCredentials_rules [of "JString '' ab ''" "JString ''secret123''" "'' abc ''" "''123456''" AuthService]
  from r1 ty e have c1: "validateCredentials (JNumber 42) (JString ''secret123'') =
     \<lparr>valid = False, error = ''Username and password must be strings.''\<rparr>"
    and c2: "validateCredentials (JString ''   '') (JString ''secret123'') =
     \<lparr>valid = False, error = ''Username cannot be empty.''\<rparr>"
    by blast+
  from r2 ab have c3: "validateCredentials (JString '' ab '') (JString ''secret123'') =
     \<lparr>valid = False, error = ''Username must be at least 3 characters.''\<rparr>"
    by (simp del: validateCredentials_strings)
  from r3 abc have c4: "validateCredentials (JString '' abc '') (JString ''12345'') =
     \<lparr>valid = False, error = ''Password must be at least 6 characters.''\<rparr>"
    by (simp del: validateCredentials_strings)
  from r4 abc have c5: "validateCredentials (JString '' abc '') (JString ''123456'') =
     \<lparr>valid = True, error = ''''\<rparr>"
    by (simp del: validateCredentials_strings)
  from r2 c3 have c6: "register (JString '' ab '') (JString ''secret123'') AuthService =
     Inr (\<lparr>status = 400, body = ErrorBody ''Username must be at least 3 characters.''\<rparr>,
          AuthService)"
    and c7: "login (JString '' ab '') (JString ''secret123'') AuthService =
     Inr (\<lparr>status = 400, body = ErrorBody ''Username must be at least 3 characters.''\<rparr>,
          AuthService)"
    by (simp_all del: validateCredentials_strings)
  from e ab abc c1 c2 c3 c4 c5 c6 c7 show ?thesis by simp
qed

text \<open>
  C8. \<open>login\<close> is read-only: for every store and every pair of inputs it returns (it never
  throws) with the store exactly as it was, whichever of the statuses 200, 400 and 401 it
  answers.
\<close>

theorem login_read_only:
  "\<exists>r. login u p s = Inr (r, s) \<and> status r \<in> {200, 400, 401}"
proof (cases "valid (validateCredentials u p)")
  case False
  then show ?thesis by (simp add: login_invalid)
next
  case True
  then obtain n where n: "normalizeUsername u = Inr n"
    using valid_normalize by blast
  show ?thesis
  proof (cases "users s n")
    case None
    with True n show ?thesis by (simp add: login_absent)
  next
    case (Some a)
    with True n show ?thesis by (simp add: login_present)
  qed
qed


text \<open>
  C3. For every valid pair \<open>(u, p)\<close> whose normalized username is not a key of the store,
  \<open>register u p\<close> returns status 201 with the message "Registration successful.", and
  \<open>login u p\<close> on the resulting store returns status 200 with the message
  "Login successful.".
\<close>

theorem register_then_login:
  assumes "valid (validateCredentials u p)"
    and "normalizeUsername u = Inr n"
    and "users s n = None"
  shows "\<exists>s'. register u p s =
           Inr (\<lparr>status = 201, body = MessageBody ''Registration successful.''\<rparr>, s')
         \<and> login u p s' =
           Inr (\<lparr>status = 200, body = MessageBody ''Login successful.''\<rparr>, s')"
proof -
  let ?s' = "s\<lparr>users := (users s)(n \<mapsto> \<lparr>username = n, password = p\<rparr>)\<rparr>"
  have reg: "register u p s =
      Inr (\<lparr>status = 201, body = MessageBody ''Registration successful.''\<rparr>, ?s')"
    using assms by (rule register_fresh)
  have "users ?s' n = Some \<lparr>username = n, password = p\<rparr>" by simp
  with assms(1,2) have "login u p ?s' =
      Inr (\<lparr>status = 200, body = MessageBody ''Login successful.''\<rparr>, ?s')"
    by (simp add: login_present)
  with reg show ?thesis by blast
qed

theorem register_then_login_witness:
  "valid (validateCredentials (JString ''  Alice  '') (JString ''secret123''))
   \<and> normalizeUsername (JString ''  Alice  '') = Inr ''alice''
   \<and> users AuthService ''alice'' = None
   \<and> (\<exists>s'. register (JString ''  Alice  '') (JString ''secret123'') AuthService =
           Inr (\<lparr>status = 201, body = MessageBody ''Registration successful.''\<rparr>, s')
         \<and> login (JString ''  Alice  '') (JString ''secret123'') s' =
           Inr (\<lparr>status = 200, body = MessageBody ''Login successful.''\<rparr>, s'))"
proof -
  have free: "users AuthService ''alice'' = None"
    by (simp add: AuthService_def)
  from register_then_login [OF alice_valid alice_normalize free] alice_valid alice_normalize free
  show ?thesis by blast
qed

text \<open>
  C4. For every store and valid inputs \<open>(u2, p2)\<close> whose normalized username is already a
  key of the store, \<open>register u2 p2\<close> returns status 409 with the error
  "Username already exists." and the store it returns is the store it was given: the
  account under that key is the one that was there, with the same fields.
\<close>

theorem register_duplicate:
  assumes "valid (validateCredentials u2 p2)"
    and "normalizeUsername u2 = Inr n"
    and "users s n = Some a"
  shows "\<exists>s'. register u2 p2 s =
           Inr (\<lparr>status = 409, body = ErrorBody ''Username already exists.''\<rparr>, s')
         \<and> s' = s \<and> users s' n = Some a"
  using assms by (simp add: register_taken)

theorem register_duplicate_witness:
  "valid (validateCredentials (JString ''  Alice  '') (JString ''secret123''))
   \<and> normalizeUsername (JString ''  Alice  '') = Inr ''alice''
   \<and> users \<lparr>users = [''alice'' \<mapsto> \<lparr>username = ''alice'', password = JString ''hunter22''\<rparr>]\<rparr> ''alice''
       = Some \<lparr>username = ''alice'', password = JString ''hunter22''\<rparr>
   \<and> register (JString ''  Alice  '') (JString ''secret123'')
        \<lparr>users = [''alice'' \<mapsto> \<lparr>username = ''alice'', password = JString ''hunter22''\<rparr>]\<rparr> =
      Inr (\<lparr>status = 409, body = ErrorBody ''Username already exists.''\<rparr>,
           \<lparr>users = [''alice'' \<mapsto> \<lparr>username = ''alice'', password = JString ''hunter22''\<rparr>]\<rparr>)"
proof -
  let ?s = "\<lparr>users = [''alice'' \<mapsto> \<lparr>username = ''alice'', password = JString ''hunter22''\<rparr>]\<rparr>"
  have there: "users ?s ''alice'' = Some \<lparr>username = ''alice'', password = JString ''hunter22''\<rparr>"
    by simp
  from register_duplicate [OF alice_valid alice_normalize there] alice_valid alice_normalize there
  show ?thesis by simp
qed

text \<open>
  C1. If \<open>register u p\<close> returns 201, then for every username \<open>v\<close> that normalizes to the
  same key as \<open>u\<close> (any casing or whitespace variant) and passes validation with \<open>p\<close>, a
  following \<open>login v p\<close> on the resulting store returns status 200: \<open>login\<close> looks the
  account up under \<open>normalizeUsername v\<close>, the function \<open>register\<close> stored it under.
\<close>

theorem login_variant_after_register:
  assumes "register u p s = Inr (r, s')"
    and "status r = 201"
    and "normalizeUsername v = normalizeUsername u"
    and "valid (validateCredentials v p)"
  shows "login v p s' = Inr (\<lparr>status = 200, body = MessageBody ''Login successful.''\<rparr>, s')"
proof -
  from register_201 [OF assms(1,2)] obtain n where
    n: "normalizeUsername u = Inr n"
    and s': "s' = s\<lparr>users := (users s)(n \<mapsto> \<lparr>username = n, password = p\<rparr>)\<rparr>"
    by blast
  from s' have "users s' n = Some \<lparr>username = n, password = p\<rparr>" by simp
  moreover from n assms(3) have "normalizeUsername v = Inr n" by simp
  ultimately show ?thesis
    using assms(4) by (simp add: login_present)
qed

theorem login_variant_after_register_witness:
  "register (JString ''  Alice  '') (JString ''secret123'') AuthService =
     Inr (\<lparr>status = 201, body = MessageBody ''Registration successful.''\<rparr>,
          \<lparr>users = [''alice'' \<mapsto> \<lparr>username = ''alice'', password = JString ''secret123''\<rparr>]\<rparr>)
   \<and> status \<lparr>status = 201, body = MessageBody ''Registration successful.''\<rparr> = 201
   \<and> normalizeUsername (JString ''aLICE '') = normalizeUsername (JString ''  Alice  '')
   \<and> valid (validateCredentials (JString ''aLICE '') (JString ''secret123''))
   \<and> login (JString ''aLICE '') (JString ''secret123'')
        \<lparr>users = [''alice'' \<mapsto> \<lparr>username = ''alice'', password = JString ''secret123''\<rparr>]\<rparr> =
      Inr (\<lparr>status = 200, body = MessageBody ''Login successful.''\<rparr>,
           \<lparr>users = [''alice'' \<mapsto> \<lparr>username = ''alice'', password = JString ''secret123''\<rparr>]\<rparr>)"
proof -
  have st: "status \<lparr>status = 201, body = MessageBody ''Registration successful.''\<rparr> = 201"
    by simp
  have same: "normalizeUsername (JString ''aLICE '') = normalizeUsername (JString ''  Alice  '')"
    by code_simp
  have ok: "valid (validateCredentials (JString ''aLICE '') (JString ''secret123''))"
    by code_simp
  from login_variant_after_register [OF register_alice st same ok] register_alice st same ok
  show ?thesis by (simp only: simp_thms)
qed

text \<open>
  C7. As stated, for every \<open>login\<close> call whose normalized username is absent from the
  store, and every call whose account exists but whose password does not match, the
  result would be status 401 with the error "Invalid username or password.". The
  validation guard comes first: a call that fails validation returns 400 whatever the
  store holds.
\<close>

theorem login_401_counterexample:
  "normalizeUsername (JString ''ab'') = Inr ''ab''
   \<and> users AuthService ''ab'' = None
   \<and> login (JString ''ab'') (JString ''secret123'') AuthService =
       Inr (\<lparr>status = 400, body = ErrorBody ''Username must be at least 3 characters.''\<rparr>,
            AuthService)
   \<and> normalizeUsername (JString ''alice'') = Inr ''alice''
   \<and> users \<lparr>users = [''alice'' \<mapsto> \<lparr>username = ''alice'', password = JString ''secret123''\<rparr>]\<rparr> ''alice''
       = Some \<lparr>username = ''alice'', password = JString ''secret123''\<rparr>
   \<and> JString ''secret123'' \<noteq> JString ''oops''
   \<and> login (JString ''alice'') (JString ''oops'')
        \<lparr>users = [''alice'' \<mapsto> \<lparr>username = ''alice'', password = JString ''secret123''\<rparr>]\<rparr> =
       Inr (\<lparr>status = 400, body = ErrorBody ''Password must be at least 6 characters.''\<rparr>,
            \<lparr>users = [''alice'' \<mapsto> \<lparr>username = ''alice'', password = JString ''secret123''\<rparr>]\<rparr>)"
proof -
  have n1: "normalizeUsername (JString ''ab'') = Inr ''ab''" by code_simp
  have n2: "normalizeUsername (JString ''alice'') = Inr ''alice''" by code_simp
  have v1: "validateCredentials (JString ''ab'') (JString ''secret123'') =
      \<lparr>valid = False, error = ''Username must be at least 3 characters.''\<rparr>"
    by code_simp
  have v2: "validateCredentials (JString ''alice'') (JString ''oops'') =
      \<lparr>valid = False, error = ''Password must be at least 6 characters.''\<rparr>"
    by code_simp
  have l1: "login (JString ''ab'') (JString ''secret123'') AuthService =
       Inr (\<lparr>status = 400, body = ErrorBody ''Username must be at least 3 characters.''\<rparr>,
            AuthService)"
    using login_invalid [of "JString ''ab''" "JString ''secret123''" AuthService]
    by (simp only: v1) simp
  have l2: "login (JString ''alice'') (JString ''oops'')
        \<lparr>users = [''alice'' \<mapsto> \<lparr>username = ''alice'', password = JString ''secret123''\<rparr>]\<rparr> =
       Inr (\<lparr>status = 400, body = ErrorBody ''Password must be at least 6 characters.''\<rparr>,
            \<lparr>users = [''alice'' \<mapsto> \<lparr>username = ''alice'', password = JString ''secret123''\<rparr>]\<rparr>)"
    using login_invalid [of "JString ''alice''" "JString ''oops''"
        "\<lparr>users = [''alice'' \<mapsto> \<lparr>username = ''alice'', password = JString ''secret123''\<rparr>]\<rparr>"]
    by (simp only: v2) simp
  have e: "users AuthService ''ab'' = None" by (simp add: AuthService_def)
  have d: "JString ''secret123'' \<noteq> JString ''oops''" by simp
  from n1 n2 l1 l2 e d alice_store_lookup show ?thesis by (simp only: simp_thms)
qed

text \<open>
  C7, amended. For every \<open>login\<close> call whose inputs pass validation: if the normalized
  username is absent from the store, or the account exists and its password is not the
  one supplied, the result is status 401 with the error "Invalid username or password."
  and the store unchanged; the two causes give one and the same result.
\<close>

theorem login_failures_indistinguishable:
  assumes "valid (validateCredentials u p)"
    and "normalizeUsername u = Inr n"
    and "users s n = None \<or> (\<exists>a. users s n = Some a \<and> password a \<noteq> p)"
  shows "login u p s =
     Inr (\<lparr>status = 401, body = ErrorBody ''Invalid username or password.''\<rparr>, s)"
  using assms by (auto simp: login_absent login_present)

theorem login_failures_indistinguishable_witness:
  "valid (validateCredentials (JString ''  Alice  '') (JString ''secret123''))
   \<and> normalizeUsername (JString ''  Alice  '') = Inr ''alice''
   \<and> users AuthService ''alice'' = None
   \<and> users \<lparr>users = [''alice'' \<mapsto> \<lparr>username = ''alice'', password = JString ''hunter22''\<rparr>]\<rparr> ''alice''
       = Some \<lparr>username = ''alice'', password = JString ''hunter22''\<rparr>
   \<and> password \<lparr>username = ''alice'', password = JString ''hunter22''\<rparr> \<noteq> JString ''secret123''
   \<and> login (JString ''  Alice  '') (JString ''secret123'') AuthService =
       Inr (\<lparr>status = 401, body = ErrorBody ''Invalid username or password.''\<rparr>, AuthService)
   \<and> login (JString ''  Alice  '') (JString ''secret123'')
        \<lparr>users = [''alice'' \<mapsto> \<lparr>username = ''alice'', password = JString ''hunter22''\<rparr>]\<rparr> =
       Inr (\<lparr>status = 401, body = ErrorBody ''Invalid username or password.''\<rparr>,
            \<lparr>users = [''alice'' \<mapsto> \<lparr>username = ''alice'', password = JString ''hunter22''\<rparr>]\<rparr>)"
proof -
  let ?a = "\<lparr>username = ''alice'', password = JString ''hunter22''\<rparr>"
  let ?s = "\<lparr>users = [''alice'' \<mapsto> ?a]\<rparr>"
  have free: "users AuthService ''alice'' = None"
    by (simp add: AuthService_def)
  have there: "users ?s ''alice'' = Some ?a" by simp
  have wrong: "password ?a \<noteq> JString ''secret123''" by simp
  have h1: "users AuthService ''alice'' = None \<or>
      (\<exists>a. users AuthService ''alice'' = Some a \<and> password a \<noteq> JString ''secret123'')"
    using free by blast
  have h2: "users ?s ''alice'' = None \<or>
      (\<exists>a. users ?s ''alice'' = Some a \<and> password a \<noteq> JString ''secret123'')"
    using there wrong by blast
  from login_failures_indistinguishable [OF alice_valid alice_normalize h1]
    login_failures_indistinguishable [OF alice_valid alice_normalize h2]
    alice_valid alice_normalize free there wrong
  show ?thesis by (simp only: simp_thms)
qed




text \<open>
  C10. Passwords are never normalized. Once \<open>register u p\<close> has returned 201, then in the
  resulting store and in every store that later calls lead to, a \<open>login v p'\<close> that passes
  validation and whose username normalizes to the account's key returns 200 exactly when
  \<open>p'\<close> is \<open>p\<close>, character for character; any other \<open>p'\<close> gives 401.
\<close>

theorem login_password_exact:
  assumes "register u p s = Inr (r, s')"
    and "status r = 201"
    and "valid (validateCredentials v p')"
    and "normalizeUsername v = normalizeUsername u"
  shows "\<exists>r'. login v p' (run s' cs) = Inr (r', run s' cs)
     \<and> (status r' = 200 \<longleftrightarrow> p' = p)
     \<and> (p' \<noteq> p \<longrightarrow> r' = \<lparr>status = 401, body = ErrorBody ''Invalid username or password.''\<rparr>)"
proof -
  from register_201 [OF assms(1,2)] obtain n where
    n: "normalizeUsername u = Inr n"
    and s': "s' = s\<lparr>users := (users s)(n \<mapsto> \<lparr>username = n, password = p\<rparr>)\<rparr>"
    by blast
  from s' have "users s' n = Some \<lparr>username = n, password = p\<rparr>" by simp
  then have there: "users (run s' cs) n = Some \<lparr>username = n, password = p\<rparr>"
    by (rule run_keeps)
  from n assms(4) have "normalizeUsername v = Inr n" by simp
  from login_present [OF assms(3) this there] show ?thesis
    by (cases "p' = p") auto
qed

theorem login_password_exact_witness:
  "register (JString ''  Alice  '') (JString ''secret123'') AuthService =
     Inr (\<lparr>status = 201, body = MessageBody ''Registration successful.''\<rparr>,
          \<lparr>users = [''alice'' \<mapsto> \<lparr>username = ''alice'', password = JString ''secret123''\<rparr>]\<rparr>)
   \<and> valid (validateCredentials (JString ''ALICE'') (JString ''Secret123 ''))
   \<and> normalizeUsername (JString ''ALICE'') = normalizeUsername (JString ''  Alice  '')
   \<and> JString ''Secret123 '' \<noteq> JString ''secret123''
   \<and> login (JString ''ALICE'') (JString ''Secret123 '')
       (run \<lparr>users = [''alice'' \<mapsto> \<lparr>username = ''alice'', password = JString ''secret123''\<rparr>]\<rparr>
          [Register (JString ''alice'') (JString ''Secret123 '')]) =
     Inr (\<lparr>status = 401, body = ErrorBody ''Invalid username or password.''\<rparr>,
       run \<lparr>users = [''alice'' \<mapsto> \<lparr>username = ''alice'', password = JString ''secret123''\<rparr>]\<rparr>
          [Register (JString ''alice'') (JString ''Secret123 '')])
   \<and> valid (validateCredentials (JString ''ALICE'') (JString ''secret123''))
   \<and> (\<exists>r'. login (JString ''ALICE'') (JString ''secret123'')
       (run \<lparr>users = [''alice'' \<mapsto> \<lparr>username = ''alice'', password = JString ''secret123''\<rparr>]\<rparr>
          [Register (JString ''alice'') (JString ''Secret123 '')]) =
     Inr (r',
       run \<lparr>users = [''alice'' \<mapsto> \<lparr>username = ''alice'', password = JString ''secret123''\<rparr>]\<rparr>
          [Register (JString ''alice'') (JString ''Secret123 '')])
     \<and> status r' = 200)"
proof -
  have st: "status \<lparr>status = 201, body = MessageBody ''Registration successful.''\<rparr> = 201"
    by simp
  have ok: "valid (validateCredentials (JString ''ALICE'') (JString ''Secret123 ''))"
    by code_simp
  have same: "normalizeUsername (JString ''ALICE'') = normalizeUsername (JString ''  Alice  '')"
    by code_simp
  have d: "JString ''Secret123 '' \<noteq> JString ''secret123''" by simp
  from login_password_exact [OF register_alice st ok same,
      of "[Register (JString ''alice'') (JString ''Secret123 '')]"] d
  have "login (JString ''ALICE'') (JString ''Secret123 '')
       (run \<lparr>users = [''alice'' \<mapsto> \<lparr>username = ''alice'', password = JString ''secret123''\<rparr>]\<rparr>
          [Register (JString ''alice'') (JString ''Secret123 '')]) =
     Inr (\<lparr>status = 401, body = ErrorBody ''Invalid username or password.''\<rparr>,
       run \<lparr>users = [''alice'' \<mapsto> \<lparr>username = ''alice'', password = JString ''secret123''\<rparr>]\<rparr>
          [Register (JString ''alice'') (JString ''Secret123 '')])"
    by blast
  moreover have ok': "valid (validateCredentials (JString ''ALICE'') (JString ''secret123''))"
    by code_simp
  moreover from login_password_exact [OF register_alice st ok' same,
      of "[Register (JString ''alice'') (JString ''Secret123 '')]"]
  have "\<exists>r'. login (JString ''ALICE'') (JString ''secret123'')
       (run \<lparr>users = [''alice'' \<mapsto> \<lparr>username = ''alice'', password = JString ''secret123''\<rparr>]\<rparr>
          [Register (JString ''alice'') (JString ''Secret123 '')]) =
     Inr (r',
       run \<lparr>users = [''alice'' \<mapsto> \<lparr>username = ''alice'', password = JString ''secret123''\<rparr>]\<rparr>
          [Register (JString ''alice'') (JString ''Secret123 '')])
     \<and> status r' = 200"
    by blast
  ultimately show ?thesis
    using register_alice ok same d by (simp only: simp_thms)
qed

text \<open>
  C9. As stated, the account created by a successful \<open>register u p\<close> would keep the trimmed
  username in its original casing as a display name. The account object has two fields,
  the normalized username and the password; registering \<open>"  Alice  "\<close> stores \<open>"alice"\<close>, and
  \<open>"Alice"\<close> is nowhere in the account.
\<close>

theorem register_display_username_counterexample:
  "register (JString ''  Alice  '') (JString ''secret123'') AuthService =
     Inr (\<lparr>status = 201, body = MessageBody ''Registration successful.''\<rparr>,
          \<lparr>users = [''alice'' \<mapsto> \<lparr>username = ''alice'', password = JString ''secret123''\<rparr>]\<rparr>)
   \<and> trim ''  Alice  '' = ''Alice''
   \<and> username \<lparr>username = ''alice'', password = JString ''secret123''\<rparr> \<noteq> trim ''  Alice  ''
   \<and> password \<lparr>username = ''alice'', password = JString ''secret123''\<rparr>
       \<noteq> JString (trim ''  Alice  '')"
proof -
  have t: "trim ''  Alice  '' = ''Alice''" by code_simp
  from register_alice t show ?thesis by simp
qed

text \<open>
  C9, amended. For every successful \<open>register u p\<close>, the created account is stored under
  the normalized username (\<open>u\<close> trimmed and lowercased) and its username field is that same
  normalized string; its only other field is the password as supplied.
\<close>

theorem register_stores_normalized_username:
  assumes "register u p s = Inr (r, s')"
    and "status r = 201"
  shows "\<exists>us. u = JString us \<and>
    users s' (toLowerCase (trim us)) = Some \<lparr>username = toLowerCase (trim us), password = p\<rparr>"
proof -
  from register_201 [OF assms] obtain n where
    v: "valid (validateCredentials u p)"
    and n: "normalizeUsername u = Inr n"
    and s': "s' = s\<lparr>users := (users s)(n \<mapsto> \<lparr>username = n, password = p\<rparr>)\<rparr>"
    by blast
  from valid_normalize [OF v] obtain us where
    us: "u = JString us" "normalizeUsername u = Inr (toLowerCase (trim us))"
    by blast
  with n have "n = toLowerCase (trim us)" by simp
  with s' us(1) show ?thesis by simp
qed

theorem register_stores_normalized_username_witness:
  "register (JString ''  Alice  '') (JString ''secret123'') AuthService =
     Inr (\<lparr>status = 201, body = MessageBody ''Registration successful.''\<rparr>,
          \<lparr>users = [''alice'' \<mapsto> \<lparr>username = ''alice'', password = JString ''secret123''\<rparr>]\<rparr>)
   \<and> toLowerCase (trim ''  Alice  '') = ''alice''
   \<and> users \<lparr>users = [''alice'' \<mapsto> \<lparr>username = ''alice'', password = JString ''secret123''\<rparr>]\<rparr>
        (toLowerCase (trim ''  Alice  ''))
      = Some \<lparr>username = toLowerCase (trim ''  Alice  ''), password = JString ''secret123''\<rparr>"
proof -
  have st: "status \<lparr>status = 201, body = MessageBody ''Registration successful.''\<rparr> = 201"
    by simp
  have t: "toLowerCase (trim ''  Alice  '') = ''alice''" by code_simp
  from register_stores_normalized_username [OF register_alice st] register_alice t
  show ?thesis by auto
qed

text \<open>
  C2. The claim asks that no stored account hold the plaintext password. Registering
  \<open>"carol"\<close> with the password \<open>"Pa55word!"\<close> on the empty store leaves an account whose
  password field is that very string, and \<open>login\<close> accepts by comparing the supplied value
  with it.
\<close>

theorem register_stores_plaintext:
  "register (JString ''carol'') (JString ''Pa55word!'') AuthService =
     Inr (\<lparr>status = 201, body = MessageBody ''Registration successful.''\<rparr>,
          \<lparr>users = [''carol'' \<mapsto> \<lparr>username = ''carol'', password = JString ''Pa55word!''\<rparr>]\<rparr>)
   \<and> password \<lparr>username = ''carol'', password = JString ''Pa55word!''\<rparr> = JString ''Pa55word!''
   \<and> login (JString ''carol'') (JString ''Pa55word!'')
        \<lparr>users = [''carol'' \<mapsto> \<lparr>username = ''carol'', password = JString ''Pa55word!''\<rparr>]\<rparr> =
     Inr (\<lparr>status = 200, body = MessageBody ''Login successful.''\<rparr>,
          \<lparr>users = [''carol'' \<mapsto> \<lparr>username = ''carol'', password = JString ''Pa55word!''\<rparr>]\<rparr>)"
proof -
  let ?s = "\<lparr>users = [''carol'' \<mapsto> \<lparr>username = ''carol'', password = JString ''Pa55word!''\<rparr>]\<rparr>"
  have v: "valid (validateCredentials (JString ''carol'') (JString ''Pa55word!''))"
    by code_simp
  have n: "normalizeUsername (JString ''carol'') = Inr ''carol''"
    by code_simp
  have there: "users ?s ''carol'' = Some \<lparr>username = ''carol'', password = JString ''Pa55word!''\<rparr>"
    by simp
  from register_fresh [OF v n, of AuthService]
  have "register (JString ''carol'') (JString ''Pa55word!'') AuthService =
     Inr (\<lparr>status = 201, body = MessageBody ''Registration successful.''\<rparr>, ?s)"
    by (simp add: AuthService_def)
  moreover from login_present [OF v n there]
  have "login (JString ''carol'') (JString ''Pa55word!'') ?s =
     Inr (\<lparr>status = 200, body = MessageBody ''Login successful.''\<rparr>, ?s)"
    by simp
  ultimately show ?thesis by simp
qed

end
